theory Spec2Isabelle
  imports Complex_Main "HOL-Library.AList" "HOL-Library.Char_ord" "HOL-Library.List_Lexorder"
begin

section \<open>Numeric cells\<close>

text \<open>
  The numeric columns of the inventory table hold 64-bit floats. A cell is modelled as a
  finite real or one of the three special values of the float format. Finite arithmetic is
  exact in this development: rounding, overflow to infinity and the sign of zero are not
  represented (a zero divisor is read as +0.0). What the table's arithmetic does at the
  special values is written out.
\<close>

datatype fval = Fin real | PInf | NInf | NaN

fun fneg :: "fval \<Rightarrow> fval" where
  "fneg (Fin a) = Fin (- a)"
| "fneg PInf = NInf"
| "fneg NInf = PInf"
| "fneg NaN = NaN"


fun fadd :: "fval \<Rightarrow> fval \<Rightarrow> fval" where
  "fadd NaN y = NaN"
| "fadd x NaN = NaN"
| "fadd (Fin a) (Fin b) = Fin (a + b)"
| "fadd PInf NInf = NaN"
| "fadd NInf PInf = NaN"
| "fadd PInf y = PInf"
| "fadd x PInf = PInf"
| "fadd NInf y = NInf"
| "fadd x NInf = NInf"

definition inf_times :: "fval \<Rightarrow> real \<Rightarrow> fval" where
  \<comment> \<open>an infinity times a finite number: 0 gives NaN, otherwise the sign decides\<close>
  "inf_times i a = (if a = 0 then NaN else if 0 < a then i else fneg i)"

fun fmul :: "fval \<Rightarrow> fval \<Rightarrow> fval" where
  "fmul NaN y = NaN"
| "fmul x NaN = NaN"
| "fmul (Fin a) (Fin b) = Fin (a * b)"
| "fmul (Fin a) y = inf_times y a"
| "fmul x (Fin b) = inf_times x b"
| "fmul x y = (if x = y then PInf else NInf)"

fun fdiv :: "fval \<Rightarrow> fval \<Rightarrow> fval" where
  "fdiv NaN y = NaN"
| "fdiv x NaN = NaN"
| "fdiv (Fin a) (Fin b) =
     (if b \<noteq> 0 then Fin (a / b)
      else if 0 < a then PInf else if a < 0 then NInf else NaN)"
| "fdiv (Fin a) y = Fin 0"
| "fdiv x (Fin b) = (if 0 \<le> b then x else fneg x)"
| "fdiv x y = NaN"

fun fsqrt :: "fval \<Rightarrow> fval" where
  "fsqrt (Fin a) = (if 0 \<le> a then Fin (sqrt a) else NaN)"
| "fsqrt PInf = PInf"
| "fsqrt NInf = NaN"
| "fsqrt NaN = NaN"

section \<open>Columns and data frames\<close>

text \<open>
  A column is numeric or holds strings (the \<open>SKU\<close> and \<open>Class\<close> labels). A data frame is
  the list of its named columns, in column order. Arithmetic on a string column is outside
  this development: the model stops there with \<open>Unmodelled\<close>, and the theorems below
  are about frames whose base columns are numeric.
\<close>

datatype column = NumCol "fval list" | ObjCol "string list"

type_synonym dataframe = "(string \<times> column) list"

datatype error = KeyError string | Unmodelled | NoSuchObject

definition bind_err :: "error + 'a \<Rightarrow> ('a \<Rightarrow> error + 'b) \<Rightarrow> error + 'b" where
  "bind_err m f = (case m of Inl e \<Rightarrow> Inl e | Inr v \<Rightarrow> f v)"

definition getitem :: "dataframe \<Rightarrow> string \<Rightarrow> error + column" where
  \<comment> \<open>\<open>df[c]\<close> read: a missing column raises KeyError\<close>
  "getitem df c = (case map_of df c of None \<Rightarrow> Inl (KeyError c) | Some col \<Rightarrow> Inr col)"

definition setitem :: "dataframe \<Rightarrow> string \<Rightarrow> column \<Rightarrow> dataframe" where
  \<comment> \<open>\<open>df[c] = col\<close>: an existing column is replaced in its place, a new one is appended\<close>
  "setitem df c col = AList.update c col df"

text \<open>
  The columns of one frame share its row index, so a binary operation on two of them
  works cell by cell, row \<open>i\<close> with row \<open>i\<close>.
\<close>

fun series_binop :: "(fval \<Rightarrow> fval \<Rightarrow> fval) \<Rightarrow> column \<Rightarrow> column \<Rightarrow> error + column" where
  "series_binop f (NumCol xs) (NumCol ys) = Inr (NumCol (map2 f xs ys))"
| "series_binop f x y = Inl Unmodelled"

fun series_map :: "(fval \<Rightarrow> fval) \<Rightarrow> column \<Rightarrow> error + column" where
  "series_map g (NumCol xs) = Inr (NumCol (map g xs))"
| "series_map g (ObjCol xs) = Inl Unmodelled"

definition series_mul :: "column \<Rightarrow> column \<Rightarrow> error + column" where
  "series_mul = series_binop fmul"

definition series_add :: "column \<Rightarrow> column \<Rightarrow> error + column" where
  "series_add = series_binop fadd"

definition series_truediv :: "column \<Rightarrow> column \<Rightarrow> error + column" where
  "series_truediv = series_binop fdiv"

definition series_mul_scalar :: "column \<Rightarrow> real \<Rightarrow> error + column" where
  \<comment> \<open>\<open>series * k\<close>\<close>
  "series_mul_scalar x k = series_map (\<lambda>v. fmul v (Fin k)) x"

definition scalar_mul_series :: "real \<Rightarrow> column \<Rightarrow> error + column" where
  \<comment> \<open>\<open>k * series\<close>\<close>
  "scalar_mul_series k x = series_map (\<lambda>v. fmul (Fin k) v) x"

definition series_add_scalar :: "column \<Rightarrow> real \<Rightarrow> error + column" where
  \<comment> \<open>\<open>series + k\<close>\<close>
  "series_add_scalar x k = series_map (\<lambda>v. fadd v (Fin k)) x"

definition series_truediv_scalar :: "column \<Rightarrow> real \<Rightarrow> error + column" where
  \<comment> \<open>\<open>series / k\<close>\<close>
  "series_truediv_scalar x k = series_map (\<lambda>v. fdiv v (Fin k)) x"

definition np_sqrt :: "column \<Rightarrow> error + column" where
  "np_sqrt x = series_map fsqrt x"

section \<open>The right-hand sides of \<open>calculate_metrics\<close>\<close>

text \<open>
  Each definition is the expression on the right of one assignment, evaluated on the
  frame as it is when the line runs, operands left to right.
\<close>

definition rop_expr :: "dataframe \<Rightarrow> error + column" where
  \<comment> \<open>\<open>(df["Average_Daily_Demand"] * df["Lead_Time_Days"]) + df["Safety_Stock"]\<close>\<close>
  "rop_expr df =
     bind_err (getitem df ''Average_Daily_Demand'') (\<lambda>d.
     bind_err (getitem df ''Lead_Time_Days'') (\<lambda>l.
     bind_err (series_mul d l) (\<lambda>dl.
     bind_err (getitem df ''Safety_Stock'') (\<lambda>ss.
     series_add dl ss))))"

definition annual_demand_expr :: "dataframe \<Rightarrow> error + column" where
  \<comment> \<open>\<open>df["Average_Daily_Demand"] * 365\<close>\<close>
  "annual_demand_expr df =
     bind_err (getitem df ''Average_Daily_Demand'') (\<lambda>d. series_mul_scalar d 365)"

definition eoq_expr :: "dataframe \<Rightarrow> error + column" where
  \<comment> \<open>\<open>np.sqrt((2 * df["Annual_Demand"] * df["Order_Cost"]) / df["Holding_Cost"])\<close>\<close>
  "eoq_expr df =
     bind_err (getitem df ''Annual_Demand'') (\<lambda>ad.
     bind_err (scalar_mul_series 2 ad) (\<lambda>ad2.
     bind_err (getitem df ''Order_Cost'') (\<lambda>oc.
     bind_err (series_mul ad2 oc) (\<lambda>num.
     bind_err (getitem df ''Holding_Cost'') (\<lambda>hc.
     bind_err (series_truediv num hc) np_sqrt)))))"

definition total_cost_expr :: "dataframe \<Rightarrow> error + column" where
  \<comment> \<open>\<open>(df["EOQ"]/2 * df["Holding_Cost"]) + (df["Annual_Demand"]/df["EOQ"] * df["Order_Cost"])\<close>\<close>
  "total_cost_expr df =
     bind_err (getitem df ''EOQ'') (\<lambda>q.
     bind_err (series_truediv_scalar q 2) (\<lambda>q2.
     bind_err (getitem df ''Holding_Cost'') (\<lambda>hc.
     bind_err (series_mul q2 hc) (\<lambda>hold.
     bind_err (getitem df ''Annual_Demand'') (\<lambda>ad.
     bind_err (getitem df ''EOQ'') (\<lambda>q'.
     bind_err (series_truediv ad q') (\<lambda>n.
     bind_err (getitem df ''Order_Cost'') (\<lambda>oc.
     bind_err (series_mul n oc) (\<lambda>ord.
     series_add hold ord)))))))))"

section \<open>The object store and the two functions\<close>

text \<open>
  Data frames are mutable objects. The store is the list of the objects alive, a
  reference is an index into it, and a program returns its result or the exception
  raised together with the store it leaves. \<open>df[c] = e\<close> writes into the object that
  \<open>df\<close> refers to; \<open>df.copy()\<close> allocates a new object with the same columns.
\<close>

type_synonym ref = nat

type_synonym store = "dataframe list"

type_synonym 'a prog = "store \<Rightarrow> (error + 'a) \<times> store"

definition return_prog :: "'a \<Rightarrow> 'a prog" where
  "return_prog v s = (Inr v, s)"

definition bind_prog :: "'a prog \<Rightarrow> ('a \<Rightarrow> 'b prog) \<Rightarrow> 'b prog" where
  "bind_prog m k s = (case m s of (Inl e, s') \<Rightarrow> (Inl e, s') | (Inr v, s') \<Rightarrow> k v s')"

definition seq :: "unit prog \<Rightarrow> 'a prog \<Rightarrow> 'a prog" where
  "seq m k = bind_prog m (\<lambda>_. k)"

definition assign_col :: "ref \<Rightarrow> string \<Rightarrow> (dataframe \<Rightarrow> error + column) \<Rightarrow> unit prog" where
  \<comment> \<open>\<open>df[c] = e\<close> with \<open>df\<close> bound to \<open>r\<close>: if \<open>e\<close> raises, nothing is written\<close>
  "assign_col r c e s =
     (if r < length s then
        (case e (s ! r) of
           Inl err \<Rightarrow> (Inl err, s)
         | Inr col \<Rightarrow> (Inr (), s[r := setitem (s ! r) c col]))
      else (Inl NoSuchObject, s))"

definition copy :: "ref \<Rightarrow> ref prog" where
  \<comment> \<open>\<open>df.copy()\<close>: a new object, at the next free reference\<close>
  "copy r s = (if r < length s then (Inr (length s), s @ [s ! r]) else (Inl NoSuchObject, s))"

definition skip :: "unit prog" where
  "skip = return_prog ()"

definition calculate_metrics :: "ref \<Rightarrow> ref prog" where
  "calculate_metrics df =
     seq (assign_col df ''ROP'' rop_expr)
    (seq (assign_col df ''Annual_Demand'' annual_demand_expr)
    (seq (assign_col df ''EOQ'' eoq_expr)
    (seq (assign_col df ''Total_Cost'' total_cost_expr)
    (return_prog df))))"

definition high_demand :: "ref \<Rightarrow> unit prog" where
  \<comment> \<open>\<open>df["Average_Daily_Demand"] = df["Average_Daily_Demand"] * 1.2\<close>\<close>
  "high_demand df =
     assign_col df ''Average_Daily_Demand''
       (\<lambda>f. bind_err (getitem f ''Average_Daily_Demand'') (\<lambda>d. series_mul_scalar d 1.2))"

definition supply_delay :: "ref \<Rightarrow> unit prog" where
  \<comment> \<open>\<open>df["Lead_Time_Days"] = df["Lead_Time_Days"] + 3\<close>\<close>
  "supply_delay df =
     assign_col df ''Lead_Time_Days''
       (\<lambda>f. bind_err (getitem f ''Lead_Time_Days'') (\<lambda>l. series_add_scalar l 3))"

definition apply_scenario :: "ref \<Rightarrow> string \<Rightarrow> ref prog" where
  "apply_scenario df0 scenario =
     bind_prog (copy df0) (\<lambda>df.
       seq (if scenario = ''High Demand (+20%)'' then high_demand df
            else if scenario = ''Supply Delay (+3 days)'' then supply_delay df
            else if scenario = ''High Demand + Supply Delay'' then
              seq (high_demand df) (supply_delay df)
            else skip)
           (calculate_metrics df))"

section \<open>The class-wise summary\<close>






section \<open>The formulas of the specification, per record\<close>

definition spec_rop :: "fval \<Rightarrow> fval \<Rightarrow> fval \<Rightarrow> fval" where
  \<comment> \<open>rop = avg_daily_demand * lead_time_days + safety_stock\<close>
  "spec_rop d l ss = fadd (fmul d l) ss"

definition spec_annual_demand :: "fval \<Rightarrow> fval" where
  \<comment> \<open>annual_demand = avg_daily_demand * 365\<close>
  "spec_annual_demand d = fmul d (Fin 365)"

definition spec_eoq :: "fval \<Rightarrow> fval \<Rightarrow> fval \<Rightarrow> fval" where
  \<comment> \<open>eoq = sqrt(2 * annual_demand * order_cost / holding_cost)\<close>
  "spec_eoq d oc hc = fsqrt (fdiv (fmul (fmul (Fin 2) (spec_annual_demand d)) oc) hc)"

definition spec_total_cost :: "fval \<Rightarrow> fval \<Rightarrow> fval \<Rightarrow> fval" where
  \<comment> \<open>total_cost = eoq/2 * holding_cost + annual_demand/eoq * order_cost\<close>
  "spec_total_cost d oc hc =
     fadd (fmul (fdiv (spec_eoq d oc hc) (Fin 2)) hc)
          (fmul (fdiv (spec_annual_demand d) (spec_eoq d oc hc)) oc)"





section \<open>Reading results, and the data used as examples\<close>

definition num_at :: "dataframe \<Rightarrow> string \<Rightarrow> nat \<Rightarrow> fval option" where
  \<comment> \<open>the numeric cell of column \<open>c\<close> in row \<open>i\<close>\<close>
  "num_at df c i =
     (case map_of df c of
        Some (NumCol xs) \<Rightarrow> (if i < length xs then Some (xs ! i) else None)
      | Some (ObjCol xs) \<Rightarrow> None
      | None \<Rightarrow> None)"

definition returned :: "(error + ref) \<times> store \<Rightarrow> error + dataframe" where
  \<comment> \<open>the frame a call hands back: the object its result refers to, in the store it leaves\<close>
  "returned out = (case fst out of Inl e \<Rightarrow> Inl e | Inr r \<Rightarrow> Inr (snd out ! r))"

definition derived_cols :: "string set" where
  "derived_cols = {''ROP'', ''Annual_Demand'', ''EOQ'', ''Total_Cost''}"

definition initial_data :: dataframe where
  \<comment> \<open>the table the application starts with\<close>
  "initial_data =
     [(''SKU'', ObjCol [''A 101'', ''B 101'']),
      (''Class'', ObjCol [''A'', ''B'']),
      (''Average_Daily_Demand'', NumCol [Fin 50, Fin 30]),
      (''Lead_Time_Days'', NumCol [Fin 10, Fin 5]),
      (''Safety_Stock'', NumCol [Fin 100, Fin 50]),
      (''Order_Cost'', NumCol [Fin 200, Fin 150]),
      (''Holding_Cost'', NumCol [Fin 2, Fin 1.5])]"

definition sku_frame :: "real \<Rightarrow> real \<Rightarrow> real \<Rightarrow> real \<Rightarrow> real \<Rightarrow> dataframe" where
  \<comment> \<open>a table with the one record A 101 and the given five numbers\<close>
  "sku_frame d l ss oc hc =
     [(''SKU'', ObjCol [''A 101'']),
      (''Class'', ObjCol [''A'']),
      (''Average_Daily_Demand'', NumCol [Fin d]),
      (''Lead_Time_Days'', NumCol [Fin l]),
      (''Safety_Stock'', NumCol [Fin ss]),
      (''Order_Cost'', NumCol [Fin oc]),
      (''Holding_Cost'', NumCol [Fin hc])]"

section \<open>Auxiliary definitions for the proofs\<close>

text \<open>The four derived columns, computed from the base columns, and the frame carrying them.\<close>

definition rop_col :: "fval list \<Rightarrow> fval list \<Rightarrow> fval list \<Rightarrow> fval list" where
  "rop_col d l ss = map2 fadd (map2 fmul d l) ss"

definition ad_col :: "fval list \<Rightarrow> fval list" where
  "ad_col d = map (\<lambda>v. fmul v (Fin 365)) d"

definition eoq_col :: "fval list \<Rightarrow> fval list \<Rightarrow> fval list \<Rightarrow> fval list" where
  "eoq_col d oc hc =
     map fsqrt (map2 fdiv (map2 fmul (map (\<lambda>v. fmul (Fin 2) v) (ad_col d)) oc) hc)"

definition tc_col :: "fval list \<Rightarrow> fval list \<Rightarrow> fval list \<Rightarrow> fval list" where
  "tc_col d oc hc =
     map2 fadd (map2 fmul (map (\<lambda>v. fdiv v (Fin 2)) (eoq_col d oc hc)) hc)
               (map2 fmul (map2 fdiv (ad_col d) (eoq_col d oc hc)) oc)"

definition with_metrics ::
  "dataframe \<Rightarrow> fval list \<Rightarrow> fval list \<Rightarrow> fval list \<Rightarrow> fval list \<Rightarrow> fval list \<Rightarrow> dataframe" where
  "with_metrics df d l ss oc hc =
     setitem (setitem (setitem (setitem df
       ''ROP'' (NumCol (rop_col d l ss)))
       ''Annual_Demand'' (NumCol (ad_col d)))
       ''EOQ'' (NumCol (eoq_col d oc hc)))
       ''Total_Cost'' (NumCol (tc_col d oc hc))"

text \<open>
  What a sequence of assignments does to the one object it writes: the same statements,
  read as transformers of a single frame.
\<close>

type_synonym 'a fprog = "dataframe \<Rightarrow> (error + 'a) \<times> dataframe"

definition frame_assign :: "string \<Rightarrow> (dataframe \<Rightarrow> error + column) \<Rightarrow> unit fprog" where
  "frame_assign c e f =
     (case e f of Inl err \<Rightarrow> (Inl err, f) | Inr col \<Rightarrow> (Inr (), setitem f c col))"

definition frame_seq :: "unit fprog \<Rightarrow> 'a fprog \<Rightarrow> 'a fprog" where
  "frame_seq m k f = (case m f of (Inl e, f') \<Rightarrow> (Inl e, f') | (Inr u, f') \<Rightarrow> k f')"

definition frame_skip :: "unit fprog" where
  "frame_skip f = (Inr (), f)"

definition metrics_frame :: "unit fprog" where
  "metrics_frame =
     frame_seq (frame_assign ''ROP'' rop_expr)
    (frame_seq (frame_assign ''Annual_Demand'' annual_demand_expr)
    (frame_seq (frame_assign ''EOQ'' eoq_expr)
               (frame_assign ''Total_Cost'' total_cost_expr)))"

definition perturb_frame :: "string \<Rightarrow> unit fprog" where
  "perturb_frame scenario =
     (if scenario = ''High Demand (+20%)'' then
        frame_assign ''Average_Daily_Demand''
          (\<lambda>f. bind_err (getitem f ''Average_Daily_Demand'') (\<lambda>d. series_mul_scalar d 1.2))
      else if scenario = ''Supply Delay (+3 days)'' then
        frame_assign ''Lead_Time_Days''
          (\<lambda>f. bind_err (getitem f ''Lead_Time_Days'') (\<lambda>l. series_add_scalar l 3))
      else if scenario = ''High Demand + Supply Delay'' then
        frame_seq
          (frame_assign ''Average_Daily_Demand''
             (\<lambda>f. bind_err (getitem f ''Average_Daily_Demand'') (\<lambda>d. series_mul_scalar d 1.2)))
          (frame_assign ''Lead_Time_Days''
             (\<lambda>f. bind_err (getitem f ''Lead_Time_Days'') (\<lambda>l. series_add_scalar l 3)))
      else frame_skip)"

definition scenario_frame :: "string \<Rightarrow> unit fprog" where
  "scenario_frame scenario = frame_seq (perturb_frame scenario) metrics_frame"

definition on_frame :: "ref \<Rightarrow> unit fprog \<Rightarrow> unit prog" where
  "on_frame r p s = (case p (s ! r) of (res, f') \<Rightarrow> (res, s[r := f']))"

section \<open>Basic facts\<close>

lemma getitem_setitem: "getitem (setitem df c col) c' = (if c' = c then Inr col else getitem df c')"
  by (simp add: getitem_def setitem_def update_conv')

lemma map_of_setitem: "map_of (setitem df c col) c' = (if c' = c then Some col else map_of df c')"
  by (simp add: setitem_def update_conv')

lemma getitem_Some: "map_of df c = Some col \<Longrightarrow> getitem df c = Inr col"
  by (simp add: getitem_def)

lemma bind_err_Inr [simp]: "bind_err (Inr v) f = f v"
  by (simp add: bind_err_def)

lemma bind_err_Inl [simp]: "bind_err (Inl e) f = Inl e"
  by (simp add: bind_err_def)

lemma assign_col_on_frame:
  "r < length s \<Longrightarrow> assign_col r c e s = on_frame r (frame_assign c e) s"
  by (simp add: assign_col_def on_frame_def frame_assign_def split: sum.splits)

lemma seq_on_frame:
  assumes "r < length s"
    and P: "\<And>s. r < length s \<Longrightarrow> P s = on_frame r p s"
    and Q: "\<And>s. r < length s \<Longrightarrow> Q s = on_frame r q s"
  shows "seq P Q s = on_frame r (frame_seq p q) s"
proof -
  obtain res f' where pf: "p (s ! r) = (res, f')" by (cases "p (s ! r)")
  show ?thesis
  proof (cases res)
    case (Inl e)
    then show ?thesis using assms(1) pf
      by (simp add: seq_def bind_prog_def P on_frame_def frame_seq_def)
  next
    case (Inr u)
    have len: "r < length (s[r := f'])" using assms(1) by simp
    show ?thesis using assms(1) pf Inr
      by (simp add: seq_def bind_prog_def P Q [OF len] on_frame_def frame_seq_def)
  qed
qed

lemma skip_on_frame: "r < length s \<Longrightarrow> skip s = on_frame r frame_skip s"
  by (simp add: skip_def return_prog_def on_frame_def frame_skip_def)

lemma metrics_on_frame:
  assumes "r < length s"
  shows "seq (assign_col r ''ROP'' rop_expr)
        (seq (assign_col r ''Annual_Demand'' annual_demand_expr)
        (seq (assign_col r ''EOQ'' eoq_expr)
             (assign_col r ''Total_Cost'' total_cost_expr))) s = on_frame r metrics_frame s"
  unfolding metrics_frame_def using assms
  by (intro seq_on_frame assign_col_on_frame)

lemma seq_assoc_return:
  "seq A (seq B (seq C (seq D (return_prog v)))) s =
   (case seq A (seq B (seq C D)) s of (Inl e, s') \<Rightarrow> (Inl e, s') | (Inr u, s') \<Rightarrow> (Inr v, s'))"
  by (simp add: seq_def bind_prog_def return_prog_def split: prod.splits sum.splits)

lemma calculate_metrics_frame:
  assumes "r < length s"
  shows "calculate_metrics r s =
     (case metrics_frame (s ! r) of
        (Inl e, f') \<Rightarrow> (Inl e, s[r := f'])
      | (Inr u, f') \<Rightarrow> (Inr r, s[r := f']))"
  unfolding calculate_metrics_def seq_assoc_return metrics_on_frame [OF assms]
  by (simp add: on_frame_def split: prod.splits sum.splits)

lemma calculate_metrics_no_object:
  "\<not> r < length s \<Longrightarrow> calculate_metrics r s = (Inl NoSuchObject, s)"
  by (simp add: calculate_metrics_def seq_def bind_prog_def assign_col_def)

lemma perturb_on_frame:
  assumes "r < length s"
  shows "(if scenario = ''High Demand (+20%)'' then high_demand r
            else if scenario = ''Supply Delay (+3 days)'' then supply_delay r
            else if scenario = ''High Demand + Supply Delay'' then
              seq (high_demand r) (supply_delay r)
            else skip) s = on_frame r (perturb_frame scenario) s"
  unfolding perturb_frame_def high_demand_def supply_delay_def using assms
  by (auto intro!: seq_on_frame assign_col_on_frame skip_on_frame)

lemma apply_scenario_frame:
  assumes "r < length s"
  shows "apply_scenario r scenario s =
     (case scenario_frame scenario (s ! r) of
        (Inl e, f') \<Rightarrow> (Inl e, s @ [f'])
      | (Inr u, f') \<Rightarrow> (Inr (length s), s @ [f']))"
proof -
  let ?s1 = "s @ [s ! r]"
  have len: "length s < length ?s1" by simp
  have cp: "copy r s = (Inr (length s), ?s1)" using assms by (simp add: copy_def)
  obtain res f1 where pf: "perturb_frame scenario (s ! r) = (res, f1)"
    by (cases "perturb_frame scenario (s ! r)")
  show ?thesis
  proof (cases res)
    case (Inl e)
    then show ?thesis using pf
      by (simp add: apply_scenario_def bind_prog_def cp seq_def perturb_on_frame [OF len]
          on_frame_def scenario_frame_def frame_seq_def)
  next
    case (Inr u)
    have len2: "length s < length (s @ [f1])" by simp
    show ?thesis using pf Inr
      by (simp add: apply_scenario_def bind_prog_def cp seq_def perturb_on_frame [OF len]
          on_frame_def scenario_frame_def frame_seq_def calculate_metrics_frame [OF len2]
          split: prod.splits sum.splits)
  qed
qed

lemma apply_scenario_no_object:
  "\<not> r < length s \<Longrightarrow> apply_scenario r scenario s = (Inl NoSuchObject, s)"
  by (simp add: apply_scenario_def bind_prog_def copy_def)

lemma calculate_metrics_numeric:
  assumes r: "r < length s"
    and d: "map_of (s ! r) ''Average_Daily_Demand'' = Some (NumCol d)"
    and l: "map_of (s ! r) ''Lead_Time_Days'' = Some (NumCol l)"
    and ss: "map_of (s ! r) ''Safety_Stock'' = Some (NumCol ss)"
    and oc: "map_of (s ! r) ''Order_Cost'' = Some (NumCol oc)"
    and hc: "map_of (s ! r) ''Holding_Cost'' = Some (NumCol hc)"
  shows "calculate_metrics r s = (Inr r, s[r := with_metrics (s ! r) d l ss oc hc])"
  using assms
  by (simp add: calculate_metrics_def seq_def bind_prog_def assign_col_def return_prog_def
      rop_expr_def annual_demand_expr_def eoq_expr_def total_cost_expr_def
      getitem_setitem getitem_Some series_mul_def series_add_def series_truediv_def
      series_mul_scalar_def scalar_mul_series_def series_truediv_scalar_def np_sqrt_def
      with_metrics_def rop_col_def ad_col_def eoq_col_def tc_col_def)


lemma with_metrics_row:
  assumes "i < n" "length d = n" "length l = n" "length ss = n" "length oc = n" "length hc = n"
  shows "num_at (with_metrics df d l ss oc hc) ''ROP'' i = Some (spec_rop (d ! i) (l ! i) (ss ! i))"
    and "num_at (with_metrics df d l ss oc hc) ''Annual_Demand'' i = Some (spec_annual_demand (d ! i))"
    and "num_at (with_metrics df d l ss oc hc) ''EOQ'' i = Some (spec_eoq (d ! i) (oc ! i) (hc ! i))"
    and "num_at (with_metrics df d l ss oc hc) ''Total_Cost'' i = Some (spec_total_cost (d ! i) (oc ! i) (hc ! i))"
  using assms
  by (simp_all add: num_at_def with_metrics_def map_of_setitem rop_col_def ad_col_def eoq_col_def
      tc_col_def spec_rop_def spec_annual_demand_def spec_eoq_def spec_total_cost_def)

section \<open>The metrics engine\<close>



lemma update_commute:
  "k \<noteq> k' \<Longrightarrow> k \<in> fst ` set al \<or> k' \<in> fst ` set al \<Longrightarrow>
   AList.update k v (AList.update k' v' al) = AList.update k' v' (AList.update k v al)"
  by (induction al) auto

lemma map_of_in_keys: "map_of al k = Some v \<Longrightarrow> k \<in> fst ` set al"
  by (metis domI dom_map_of_conv_image_fst)

lemma assign_col_new:
  "assign_col (length s) c e (s @ [f]) =
     (case e f of Inl err \<Rightarrow> (Inl err, s @ [f]) | Inr col \<Rightarrow> (Inr (), s @ [setitem f c col]))"
  by (simp add: assign_col_def split: sum.splits)

lemma high_demand_new:
  "map_of f ''Average_Daily_Demand'' = Some (NumCol d) \<Longrightarrow>
   high_demand (length s) (s @ [f]) =
     (Inr (), s @ [setitem f ''Average_Daily_Demand'' (NumCol (map (\<lambda>v. fmul v (Fin 1.2)) d))])"
  by (simp add: high_demand_def assign_col_new getitem_Some series_mul_scalar_def)

lemma supply_delay_new:
  "map_of f ''Lead_Time_Days'' = Some (NumCol l) \<Longrightarrow>
   supply_delay (length s) (s @ [f]) =
     (Inr (), s @ [setitem f ''Lead_Time_Days'' (NumCol (map (\<lambda>v. fadd v (Fin 3)) l))])"
  by (simp add: supply_delay_def assign_col_new getitem_Some series_add_scalar_def)

text \<open>
  C2. With numeric demand and lead-time columns, \<open>apply_scenario\<close> computes the metrics on
  a copy in which High Demand (+20%) has multiplied every demand cell by 1.2, Supply Delay
  (+3 days) has added 3 to every lead-time cell, and High Demand + Supply Delay has done
  both; running the two perturbing assignments in the other order leaves the same store.
\<close>

theorem apply_scenario_perturbations:
  assumes "r < length s"
    and d: "map_of (s ! r) ''Average_Daily_Demand'' = Some (NumCol d)"
    and l: "map_of (s ! r) ''Lead_Time_Days'' = Some (NumCol l)"
  shows "apply_scenario r ''High Demand (+20%)'' s =
           calculate_metrics (length s)
             (s @ [setitem (s ! r) ''Average_Daily_Demand'' (NumCol (map (\<lambda>v. fmul v (Fin 1.2)) d))]) \<and>
         apply_scenario r ''Supply Delay (+3 days)'' s =
           calculate_metrics (length s)
             (s @ [setitem (s ! r) ''Lead_Time_Days'' (NumCol (map (\<lambda>v. fadd v (Fin 3)) l))]) \<and>
         apply_scenario r ''High Demand + Supply Delay'' s =
           calculate_metrics (length s)
             (s @ [setitem (setitem (s ! r)
                ''Average_Daily_Demand'' (NumCol (map (\<lambda>v. fmul v (Fin 1.2)) d)))
                ''Lead_Time_Days'' (NumCol (map (\<lambda>v. fadd v (Fin 3)) l))]) \<and>
         seq (supply_delay (length s)) (high_demand (length s)) (s @ [s ! r]) =
           seq (high_demand (length s)) (supply_delay (length s)) (s @ [s ! r])"
proof -
  let ?d' = "NumCol (map (\<lambda>v. fmul v (Fin 1.2)) d)"
  let ?l' = "NumCol (map (\<lambda>v. fadd v (Fin 3)) l)"
  have cp: "copy r s = (Inr (length s), s @ [s ! r])"
    using assms(1) by (simp add: copy_def)
  have l1: "map_of (setitem (s ! r) ''Average_Daily_Demand'' ?d') ''Lead_Time_Days'' = Some (NumCol l)"
    using l by (simp add: map_of_setitem)
  have d1: "map_of (setitem (s ! r) ''Lead_Time_Days'' ?l') ''Average_Daily_Demand'' = Some (NumCol d)"
    using d by (simp add: map_of_setitem)
  have hd: "apply_scenario r ''High Demand (+20%)'' s =
      calculate_metrics (length s) (s @ [setitem (s ! r) ''Average_Daily_Demand'' ?d'])"
    by (simp add: apply_scenario_def bind_prog_def cp seq_def high_demand_new [OF d])
  have sd: "apply_scenario r ''Supply Delay (+3 days)'' s =
      calculate_metrics (length s) (s @ [setitem (s ! r) ''Lead_Time_Days'' ?l'])"
    by (simp add: apply_scenario_def bind_prog_def cp seq_def supply_delay_new [OF l])
  have h1: "high_demand (length s) (s @ [s ! r]) =
      (Inr (), s @ [setitem (s ! r) ''Average_Daily_Demand'' ?d'])"
    by (rule high_demand_new [OF d])
  have s2: "supply_delay (length s) (s @ [setitem (s ! r) ''Average_Daily_Demand'' ?d']) =
      (Inr (), s @ [setitem (setitem (s ! r) ''Average_Daily_Demand'' ?d') ''Lead_Time_Days'' ?l'])"
    by (rule supply_delay_new [OF l1])
  have s1: "supply_delay (length s) (s @ [s ! r]) =
      (Inr (), s @ [setitem (s ! r) ''Lead_Time_Days'' ?l'])"
    by (rule supply_delay_new [OF l])
  have h2: "high_demand (length s) (s @ [setitem (s ! r) ''Lead_Time_Days'' ?l']) =
      (Inr (), s @ [setitem (setitem (s ! r) ''Lead_Time_Days'' ?l') ''Average_Daily_Demand'' ?d'])"
    by (rule high_demand_new [OF d1])
  have both: "seq (high_demand (length s)) (supply_delay (length s)) (s @ [s ! r]) =
      (Inr (), s @ [setitem (setitem (s ! r) ''Average_Daily_Demand'' ?d') ''Lead_Time_Days'' ?l'])"
    by (simp only: seq_def bind_prog_def h1 s2 prod.case sum.case)
  have rev: "seq (supply_delay (length s)) (high_demand (length s)) (s @ [s ! r]) =
      (Inr (), s @ [setitem (setitem (s ! r) ''Lead_Time_Days'' ?l') ''Average_Daily_Demand'' ?d'])"
    by (simp only: seq_def bind_prog_def s1 h2 prod.case sum.case)
  have comm: "setitem (setitem (s ! r) ''Lead_Time_Days'' ?l') ''Average_Daily_Demand'' ?d' =
      setitem (setitem (s ! r) ''Average_Daily_Demand'' ?d') ''Lead_Time_Days'' ?l'"
    unfolding setitem_def
    by (rule update_commute) (simp_all add: map_of_in_keys [OF d])
  have hs: "apply_scenario r ''High Demand + Supply Delay'' s =
      calculate_metrics (length s)
        (s @ [setitem (setitem (s ! r) ''Average_Daily_Demand'' ?d') ''Lead_Time_Days'' ?l'])"
  proof -
    have "apply_scenario r ''High Demand + Supply Delay'' s =
        bind_prog (seq (high_demand (length s)) (supply_delay (length s)))
          (\<lambda>u. calculate_metrics (length s)) (s @ [s ! r])"
      by (simp add: apply_scenario_def bind_prog_def cp seq_def)
    also have "\<dots> = calculate_metrics (length s)
        (s @ [setitem (setitem (s ! r) ''Average_Daily_Demand'' ?d') ''Lead_Time_Days'' ?l'])"
      by (simp only: bind_prog_def both prod.case sum.case)
    finally show ?thesis .
  qed
  have order: "seq (supply_delay (length s)) (high_demand (length s)) (s @ [s ! r]) =
           seq (high_demand (length s)) (supply_delay (length s)) (s @ [s ! r])"
    by (simp only: both rev comm)
  show ?thesis
    using hd sd hs order by (intro conjI)
qed

theorem apply_scenario_perturbations_witness:
  "apply_scenario 0 ''High Demand (+20%)'' [initial_data] =
     calculate_metrics 1
       [initial_data, setitem initial_data ''Average_Daily_Demand'' (NumCol [Fin 60, Fin 36])] \<and>
   apply_scenario 0 ''Supply Delay (+3 days)'' [initial_data] =
     calculate_metrics 1
       [initial_data, setitem initial_data ''Lead_Time_Days'' (NumCol [Fin 13, Fin 8])] \<and>
   apply_scenario 0 ''High Demand + Supply Delay'' [initial_data] =
     calculate_metrics 1
       [initial_data, setitem (setitem initial_data
          ''Average_Daily_Demand'' (NumCol [Fin 60, Fin 36]))
          ''Lead_Time_Days'' (NumCol [Fin 13, Fin 8])]"
  using apply_scenario_perturbations [of 0 "[initial_data]" "[Fin 50, Fin 30]" "[Fin 10, Fin 5]"]
  by (simp add: initial_data_def)

section \<open>Statements acting on one object\<close>

lemma returned_apply_scenario:
  assumes "r < length s"
  shows "returned (apply_scenario r scenario s) =
     (case scenario_frame scenario (s ! r) of (Inl e, f') \<Rightarrow> Inl e | (Inr u, f') \<Rightarrow> Inr f')"
  by (simp add: apply_scenario_frame [OF assms] returned_def split: prod.splits sum.splits)

lemma returned_calculate_metrics:
  assumes "r < length s"
  shows "returned (calculate_metrics r s) =
     (case metrics_frame (s ! r) of (Inl e, f') \<Rightarrow> Inl e | (Inr u, f') \<Rightarrow> Inr f')"
  using assms
  by (simp add: calculate_metrics_frame [OF assms] returned_def split: prod.splits sum.splits)

lemma snd_apply_scenario:
  assumes "r < length s"
  shows "snd (apply_scenario r scenario s) = s @ [snd (scenario_frame scenario (s ! r))]"
  by (simp add: apply_scenario_frame [OF assms] split: prod.splits sum.splits)

lemma snd_calculate_metrics:
  assumes "r < length s"
  shows "snd (calculate_metrics r s) = s[r := snd (metrics_frame (s ! r))]"
  by (simp add: calculate_metrics_frame [OF assms] split: prod.splits sum.splits)

lemma fst_calculate_metrics:
  assumes "r < length s"
  shows "fst (calculate_metrics r s) =
     (case fst (metrics_frame (s ! r)) of Inl e \<Rightarrow> Inl e | Inr u \<Rightarrow> Inr r)"
  by (simp add: calculate_metrics_frame [OF assms] split: prod.splits sum.splits)

lemma frame_assign_other:
  "c' \<noteq> c \<Longrightarrow> map_of (snd (frame_assign c e f)) c' = map_of f c'"
  by (simp add: frame_assign_def map_of_setitem split: sum.splits)

lemma frame_seq_other:
  assumes "\<And>f. map_of (snd (p f)) c = map_of f c" "\<And>f. map_of (snd (q f)) c = map_of f c"
  shows "map_of (snd (frame_seq p q f)) c = map_of f c"
proof (cases "p f")
  case (Pair res f')
  then have "map_of f' c = map_of f c" using assms(1) [of f] by simp
  then show ?thesis using Pair assms(2) [of f']
    by (cases res) (simp_all add: frame_seq_def)
qed

lemma metrics_frame_base:
  assumes "c \<notin> derived_cols"
  shows "map_of (snd (metrics_frame f)) c = map_of f c"
  unfolding metrics_frame_def using assms
  by (intro frame_seq_other frame_assign_other) (auto simp: derived_cols_def)

lemma perturb_frame_skip:
  "scenario \<notin> {''High Demand (+20%)'', ''Supply Delay (+3 days)'', ''High Demand + Supply Delay''}
   \<Longrightarrow> perturb_frame scenario = frame_skip"
  by (simp add: perturb_frame_def)

lemma scenario_frame_skip:
  "scenario \<notin> {''High Demand (+20%)'', ''Supply Delay (+3 days)'', ''High Demand + Supply Delay''}
   \<Longrightarrow> scenario_frame scenario = metrics_frame"
  by (simp add: scenario_frame_def perturb_frame_skip frame_seq_def frame_skip_def fun_eq_iff)

lemma frame_assign_present:
  "fst (frame_assign c e f) = Inr u \<Longrightarrow> map_of (snd (frame_assign c e f)) c \<noteq> None"
  by (simp add: frame_assign_def map_of_setitem split: sum.splits)

lemma frame_assign_keeps:
  "map_of f c' \<noteq> None \<Longrightarrow> map_of (snd (frame_assign c e f)) c' \<noteq> None"
  by (simp add: frame_assign_def map_of_setitem split: sum.splits)

lemma frame_seq_keeps:
  assumes "map_of f c \<noteq> None"
    and "\<And>f. map_of f c \<noteq> None \<Longrightarrow> map_of (snd (p f)) c \<noteq> None"
    and "\<And>f. map_of f c \<noteq> None \<Longrightarrow> map_of (snd (q f)) c \<noteq> None"
  shows "map_of (snd (frame_seq p q f)) c \<noteq> None"
proof (cases "p f")
  case (Pair res f')
  then have "map_of f' c \<noteq> None" using assms(1) assms(2) [of f] by simp
  then show ?thesis using Pair assms(3) [of f']
    by (cases res) (simp_all add: frame_seq_def)
qed

lemma frame_seq_sets_left:
  assumes "fst (frame_seq p q f) = Inr u"
    and "\<And>f u. fst (p f) = Inr u \<Longrightarrow> map_of (snd (p f)) c \<noteq> None"
    and "\<And>f. map_of f c \<noteq> None \<Longrightarrow> map_of (snd (q f)) c \<noteq> None"
  shows "map_of (snd (frame_seq p q f)) c \<noteq> None"
proof (cases "p f")
  case (Pair res f')
  show ?thesis
  proof (cases res)
    case (Inl e)
    then show ?thesis using Pair assms(1) by (simp add: frame_seq_def)
  next
    case (Inr v)
    then have "map_of f' c \<noteq> None" using Pair assms(2) [of f v] by simp
    then show ?thesis using Pair Inr assms(3) [of f'] by (simp add: frame_seq_def)
  qed
qed

lemma frame_seq_sets_right:
  assumes "fst (frame_seq p q f) = Inr u"
    and "\<And>f u. fst (q f) = Inr u \<Longrightarrow> map_of (snd (q f)) c \<noteq> None"
  shows "map_of (snd (frame_seq p q f)) c \<noteq> None"
proof (cases "p f")
  case (Pair res f')
  show ?thesis
  proof (cases res)
    case (Inl e)
    then show ?thesis using Pair assms(1) by (simp add: frame_seq_def)
  next
    case (Inr v)
    then show ?thesis using Pair assms(1) assms(2) [of f' u] by (simp add: frame_seq_def)
  qed
qed

lemma metrics_frame_rop:
  "fst (metrics_frame f) = Inr u \<Longrightarrow> map_of (snd (metrics_frame f)) ''ROP'' \<noteq> None"
  unfolding metrics_frame_def
  by (erule frame_seq_sets_left, erule frame_assign_present,
      (erule frame_seq_keeps frame_assign_keeps)+)

lemma metrics_frame_ad:
  "fst (metrics_frame f) = Inr u \<Longrightarrow> map_of (snd (metrics_frame f)) ''Annual_Demand'' \<noteq> None"
  unfolding metrics_frame_def
  by (erule frame_seq_sets_right, erule frame_seq_sets_left, erule frame_assign_present,
      (erule frame_seq_keeps frame_assign_keeps)+)

lemma metrics_frame_eoq:
  "fst (metrics_frame f) = Inr u \<Longrightarrow> map_of (snd (metrics_frame f)) ''EOQ'' \<noteq> None"
  unfolding metrics_frame_def
  by (erule frame_seq_sets_right, erule frame_seq_sets_right, erule frame_seq_sets_left,
      erule frame_assign_present, erule frame_assign_keeps)

lemma metrics_frame_tc:
  "fst (metrics_frame f) = Inr u \<Longrightarrow> map_of (snd (metrics_frame f)) ''Total_Cost'' \<noteq> None"
  unfolding metrics_frame_def
  by (erule frame_seq_sets_right, erule frame_seq_sets_right, erule frame_seq_sets_right,
      erule frame_assign_present)

lemma metrics_frame_derived:
  assumes "fst (metrics_frame f) = Inr u" "c \<in> derived_cols"
  shows "map_of (snd (metrics_frame f)) c \<noteq> None"
  using assms(2) metrics_frame_rop [OF assms(1)] metrics_frame_ad [OF assms(1)]
    metrics_frame_eoq [OF assms(1)] metrics_frame_tc [OF assms(1)]
  unfolding derived_cols_def by blast

section \<open>The scenario transformer and the caller's table\<close>

text \<open>
  C3. Whatever the scenario tag and whatever the table holds, \<open>apply_scenario\<close> leaves
  every object that was in the store before the call exactly as it was (it only adds its
  own copy), so a second scenario run afterwards on the same stored table hands back what
  it would have handed back on the untouched store.
\<close>

theorem apply_scenario_leaves_store:
  "take (length s) (snd (apply_scenario r t1 s)) = s \<and>
   returned (apply_scenario r t2 (snd (apply_scenario r t1 s))) = returned (apply_scenario r t2 s)"
proof (cases "r < length s")
  case True
  let ?s1 = "snd (apply_scenario r t1 s)"
  have s1: "?s1 = s @ [snd (scenario_frame t1 (s ! r))]"
    using True by (rule snd_apply_scenario)
  have r1: "r < length ?s1" using True s1 by simp
  have same: "?s1 ! r = s ! r" using True s1 by (simp add: nth_append)
  have "returned (apply_scenario r t2 ?s1) = returned (apply_scenario r t2 s)"
    by (simp only: returned_apply_scenario [OF r1] returned_apply_scenario [OF True] same)
  then show ?thesis using s1 by simp
next
  case False
  then show ?thesis by (simp add: apply_scenario_no_object)
qed

text \<open>
  C7. With the tag Base Case, \<open>apply_scenario\<close> hands back the same frame (or raises the
  same exception) as \<open>calculate_metrics\<close> run on the table itself.
\<close>

theorem base_case_is_compute_metrics:
  "returned (apply_scenario r ''Base Case'' s) = returned (calculate_metrics r s)"
proof (cases "r < length s")
  case True
  have "scenario_frame ''Base Case'' = metrics_frame"
    by (rule scenario_frame_skip) simp
  then show ?thesis
    by (simp add: returned_apply_scenario [OF True] returned_calculate_metrics [OF True])
next
  case False
  then show ?thesis
    by (simp add: apply_scenario_no_object calculate_metrics_no_object returned_def)
qed

text \<open>
  C8. A tag outside the four listed ones behaves as Base Case: same result, same store, no
  exception of its own, and the copy handed back has every column other than the four
  derived ones as in the caller's table.
\<close>

theorem unknown_tag_is_base_case:
  assumes "tag \<notin> {''Base Case'', ''High Demand (+20%)'', ''Supply Delay (+3 days)'',
                    ''High Demand + Supply Delay''}"
    and "r < length s"
  shows "apply_scenario r tag s = apply_scenario r ''Base Case'' s \<and>
         (\<exists>f'. snd (apply_scenario r tag s) = s @ [f'] \<and>
               (\<forall>c. c \<notin> derived_cols \<longrightarrow> map_of f' c = map_of (s ! r) c))"
proof -
  have eq: "apply_scenario r tag s = apply_scenario r ''Base Case'' s"
    using assms(1) by (simp add: apply_scenario_def)
  have sf: "scenario_frame tag = metrics_frame"
    using assms(1) by (intro scenario_frame_skip) simp
  have "snd (apply_scenario r tag s) = s @ [snd (metrics_frame (s ! r))]"
    using snd_apply_scenario [OF assms(2), of tag] sf by simp
  then show ?thesis using eq metrics_frame_base by blast
qed

theorem unknown_tag_is_base_case_witness:
  "apply_scenario 0 ''High Demand'' [initial_data] = apply_scenario 0 ''Base Case'' [initial_data] \<and>
   (\<exists>f'. snd (apply_scenario 0 ''High Demand'' [initial_data]) = [initial_data] @ [f'] \<and>
      map_of f' ''Average_Daily_Demand'' = Some (NumCol [Fin 50, Fin 30]))"
proof -
  have "apply_scenario 0 ''High Demand'' [initial_data] = apply_scenario 0 ''Base Case'' [initial_data] \<and>
         (\<exists>f'. snd (apply_scenario 0 ''High Demand'' [initial_data]) = [initial_data] @ [f'] \<and>
               (\<forall>c. c \<notin> derived_cols \<longrightarrow> map_of f' c = map_of ([initial_data] ! 0) c))"
    by (rule unknown_tag_is_base_case) simp_all
  moreover have "''Average_Daily_Demand'' \<notin> derived_cols"
    by (simp add: derived_cols_def)
  moreover have "map_of ([initial_data] ! 0) ''Average_Daily_Demand'' = Some (NumCol [Fin 50, Fin 30])"
    by (simp add: initial_data_def)
  ultimately show ?thesis by metis
qed

section \<open>What \<open>calculate_metrics\<close> does to its argument\<close>

text \<open>
  C4, counterexample. Run on the initial table, \<open>calculate_metrics\<close> writes the ROP column
  into the very object it was given: the object the caller still holds is no longer the
  table that was passed in.
\<close>

theorem calculate_metrics_writes_argument:
  "fst (calculate_metrics 0 [initial_data]) = Inr 0 \<and>
   map_of (snd (calculate_metrics 0 [initial_data]) ! 0) ''ROP'' = Some (NumCol [Fin 600, Fin 200]) \<and>
   map_of initial_data ''ROP'' = None \<and>
   snd (calculate_metrics 0 [initial_data]) \<noteq> [initial_data]"
proof -
  have run: "calculate_metrics 0 [initial_data] =
      (Inr 0, [initial_data][0 := with_metrics ([initial_data] ! 0) [Fin 50, Fin 30] [Fin 10, Fin 5]
         [Fin 100, Fin 50] [Fin 200, Fin 150] [Fin 2, Fin 1.5]])"
    by (rule calculate_metrics_numeric) (simp_all add: initial_data_def)
  have rop: "map_of (snd (calculate_metrics 0 [initial_data]) ! 0) ''ROP'' = Some (NumCol [Fin 600, Fin 200])"
    unfolding run by (simp add: with_metrics_def map_of_setitem rop_col_def)
  have none: "map_of initial_data ''ROP'' = None"
    by (simp add: initial_data_def)
  have "snd (calculate_metrics 0 [initial_data]) \<noteq> [initial_data]"
    using rop none by auto
  then show ?thesis using run rop none by simp
qed

text \<open>
  C4, as amended. \<open>calculate_metrics\<close> works in place: it changes no object other than its
  argument, and in its argument no column other than ROP, Annual_Demand, EOQ and
  Total_Cost; when it succeeds it returns that same object, which then carries the four
  derived columns.
\<close>

theorem calculate_metrics_in_place:
  assumes "r < length s"
  shows "\<exists>f'. snd (calculate_metrics r s) = s[r := f'] \<and>
           (\<forall>c. c \<notin> derived_cols \<longrightarrow> map_of f' c = map_of (s ! r) c) \<and>
           (fst (calculate_metrics r s) = Inr r \<or> (\<exists>e. fst (calculate_metrics r s) = Inl e)) \<and>
           (fst (calculate_metrics r s) = Inr r \<longrightarrow> (\<forall>c \<in> derived_cols. map_of f' c \<noteq> None))"
proof -
  let ?f = "snd (metrics_frame (s ! r))"
  have a: "snd (calculate_metrics r s) = s[r := ?f]"
    using assms by (rule snd_calculate_metrics)
  have b: "\<forall>c. c \<notin> derived_cols \<longrightarrow> map_of ?f c = map_of (s ! r) c"
    using metrics_frame_base by blast
  have c: "fst (calculate_metrics r s) = Inr r \<or> (\<exists>e. fst (calculate_metrics r s) = Inl e)"
    by (simp add: fst_calculate_metrics [OF assms] split: sum.splits)
  have d: "fst (calculate_metrics r s) = Inr r \<longrightarrow> (\<forall>c \<in> derived_cols. map_of ?f c \<noteq> None)"
  proof
    assume "fst (calculate_metrics r s) = Inr r"
    then have "fst (metrics_frame (s ! r)) = Inr ()"
      by (simp add: fst_calculate_metrics [OF assms] split: sum.splits)
    then show "\<forall>c \<in> derived_cols. map_of ?f c \<noteq> None"
      using metrics_frame_derived by blast
  qed
  show ?thesis using a b c d by blast
qed

theorem calculate_metrics_in_place_witness:
  "\<exists>f'. snd (calculate_metrics 0 [initial_data, initial_data]) = [f', initial_data] \<and>
      map_of f' ''Holding_Cost'' = Some (NumCol [Fin 2, Fin 1.5]) \<and>
      map_of f' ''EOQ'' \<noteq> None"
proof -
  have ok: "fst (calculate_metrics 0 [initial_data, initial_data]) = Inr 0"
    by (simp add: calculate_metrics_numeric [of 0 _ "[Fin 50, Fin 30]" "[Fin 10, Fin 5]"
         "[Fin 100, Fin 50]" "[Fin 200, Fin 150]" "[Fin 2, Fin 1.5]"] initial_data_def)
  have hc: "''Holding_Cost'' \<notin> derived_cols" and eoq: "''EOQ'' \<in> derived_cols"
    by (simp_all add: derived_cols_def)
  have "0 < length [initial_data, initial_data]" by simp
  from calculate_metrics_in_place [OF this]
  obtain f' where a: "snd (calculate_metrics 0 [initial_data, initial_data]) = [initial_data, initial_data][0 := f']"
    and b: "\<forall>c. c \<notin> derived_cols \<longrightarrow> map_of f' c = map_of ([initial_data, initial_data] ! 0) c"
    and d: "fst (calculate_metrics 0 [initial_data, initial_data]) = Inr 0 \<longrightarrow> (\<forall>c \<in> derived_cols. map_of f' c \<noteq> None)"
    by blast
  have "map_of f' ''Holding_Cost'' = Some (NumCol [Fin 2, Fin 1.5])"
    using b hc by (simp add: initial_data_def)
  moreover have "map_of f' ''EOQ'' \<noteq> None"
    using d ok eoq by blast
  moreover have "snd (calculate_metrics 0 [initial_data, initial_data]) = [f', initial_data]"
    using a by simp
  ultimately show ?thesis by blast
qed

section \<open>Division by zero and negative radicands\<close>










section \<open>The class-wise summary: properties\<close>






lemma sku_metrics:
  "calculate_metrics 0 [sku_frame d l ss oc hc] =
     (Inr 0, [with_metrics (sku_frame d l ss oc hc) [Fin d] [Fin l] [Fin ss] [Fin oc] [Fin hc]])"
proof -
  have "calculate_metrics 0 [sku_frame d l ss oc hc] =
     (Inr 0, [sku_frame d l ss oc hc][0 := with_metrics ([sku_frame d l ss oc hc] ! 0)
        [Fin d] [Fin l] [Fin ss] [Fin oc] [Fin hc]])"
    by (rule calculate_metrics_numeric) (simp_all add: sku_frame_def)
  then show ?thesis by simp
qed

lemma sku_row:
  "num_at (snd (calculate_metrics 0 [sku_frame d l ss oc hc]) ! 0) ''ROP'' 0 =
     Some (spec_rop (Fin d) (Fin l) (Fin ss))"
  "num_at (snd (calculate_metrics 0 [sku_frame d l ss oc hc]) ! 0) ''Annual_Demand'' 0 =
     Some (spec_annual_demand (Fin d))"
  "num_at (snd (calculate_metrics 0 [sku_frame d l ss oc hc]) ! 0) ''EOQ'' 0 =
     Some (spec_eoq (Fin d) (Fin oc) (Fin hc))"
  "num_at (snd (calculate_metrics 0 [sku_frame d l ss oc hc]) ! 0) ''Total_Cost'' 0 =
     Some (spec_total_cost (Fin d) (Fin oc) (Fin hc))"
  using with_metrics_row [of 0 1 "[Fin d]" "[Fin l]" "[Fin ss]" "[Fin oc]" "[Fin hc]" "sku_frame d l ss oc hc"]
  by (simp_all add: sku_metrics)





section \<open>The worked example and the cost balance\<close>

lemma apply_high_demand:
  assumes "r < length s"
    and d: "map_of (s ! r) ''Average_Daily_Demand'' = Some (NumCol d)"
  shows "apply_scenario r ''High Demand (+20%)'' s =
           calculate_metrics (length s)
             (s @ [setitem (s ! r) ''Average_Daily_Demand'' (NumCol (map (\<lambda>v. fmul v (Fin 1.2)) d))])"
proof -
  have cp: "copy r s = (Inr (length s), s @ [s ! r])"
    using assms(1) by (simp add: copy_def)
  show ?thesis
    by (simp add: apply_scenario_def bind_prog_def cp seq_def high_demand_new [OF d])
qed

lemma sqrt_3650000: "1910.49 < sqrt 3650000" "sqrt 3650000 < 1910.50"
proof -
  show "1910.49 < sqrt 3650000"
    by (rule real_less_rsqrt) (simp add: power2_eq_square)
  show "sqrt 3650000 < 1910.50"
    by (rule real_less_lsqrt) (simp_all add: power2_eq_square)
qed

lemma example_values:
  "spec_rop (Fin 50) (Fin 10) (Fin 100) = Fin 600"
  "spec_annual_demand (Fin 50) = Fin 18250"
  "spec_eoq (Fin 50) (Fin 200) (Fin 2) = Fin (sqrt 3650000)"
  "spec_total_cost (Fin 50) (Fin 200) (Fin 2) = Fin (2 * sqrt 3650000)"
proof -
  show "spec_rop (Fin 50) (Fin 10) (Fin 100) = Fin 600"
    by (simp add: spec_rop_def)
  show ad: "spec_annual_demand (Fin 50) = Fin 18250"
    by (simp add: spec_annual_demand_def)
  show e: "spec_eoq (Fin 50) (Fin 200) (Fin 2) = Fin (sqrt 3650000)"
    by (simp add: spec_eoq_def ad)
  have nz: "sqrt 3650000 \<noteq> 0" by simp
  have "18250 / sqrt 3650000 * 200 = 3650000 / sqrt 3650000" by simp
  also have "\<dots> = sqrt 3650000" by (rule real_div_sqrt) simp
  finally have o: "18250 / sqrt 3650000 * 200 = sqrt 3650000" .
  have "sqrt 3650000 / 2 * 2 + 18250 / sqrt 3650000 * 200 = 2 * sqrt 3650000"
    unfolding o by simp
  then show "spec_total_cost (Fin 50) (Fin 200) (Fin 2) = Fin (2 * sqrt 3650000)"
    unfolding spec_total_cost_def e ad using nz by simp
qed

lemma high_demand_example:
  "fst (apply_scenario 0 ''High Demand (+20%)'' [sku_frame 50 10 100 200 2]) = Inr 1"
  "num_at (snd (apply_scenario 0 ''High Demand (+20%)'' [sku_frame 50 10 100 200 2]) ! 1)
     ''Average_Daily_Demand'' 0 = Some (Fin 60)"
  "num_at (snd (apply_scenario 0 ''High Demand (+20%)'' [sku_frame 50 10 100 200 2]) ! 1)
     ''ROP'' 0 = Some (Fin 700)"
  "num_at (snd (apply_scenario 0 ''High Demand (+20%)'' [sku_frame 50 10 100 200 2]) ! 0)
     ''Average_Daily_Demand'' 0 = Some (Fin 50)"
proof -
  let ?s = "[sku_frame 50 10 100 200 2]"
  let ?p = "setitem (sku_frame 50 10 100 200 2) ''Average_Daily_Demand'' (NumCol [Fin 60])"
  have "apply_scenario 0 ''High Demand (+20%)'' ?s =
      calculate_metrics (length ?s)
        (?s @ [setitem (?s ! 0) ''Average_Daily_Demand'' (NumCol (map (\<lambda>v. fmul v (Fin 1.2)) [Fin 50]))])"
    by (rule apply_high_demand) (simp_all add: sku_frame_def)
  then have ap: "apply_scenario 0 ''High Demand (+20%)'' ?s = calculate_metrics 1 [sku_frame 50 10 100 200 2, ?p]"
    by simp
  have "calculate_metrics 1 [sku_frame 50 10 100 200 2, ?p] =
      (Inr 1, [sku_frame 50 10 100 200 2, ?p][1 :=
          with_metrics ([sku_frame 50 10 100 200 2, ?p] ! 1) [Fin 60] [Fin 10] [Fin 100] [Fin 200] [Fin 2]])"
    by (rule calculate_metrics_numeric) (simp_all add: sku_frame_def map_of_setitem)
  then have run: "apply_scenario 0 ''High Demand (+20%)'' ?s =
      (Inr 1, [sku_frame 50 10 100 200 2, with_metrics ?p [Fin 60] [Fin 10] [Fin 100] [Fin 200] [Fin 2]])"
    unfolding ap by simp
  show "fst (apply_scenario 0 ''High Demand (+20%)'' ?s) = Inr 1"
    unfolding run by simp
  show "num_at (snd (apply_scenario 0 ''High Demand (+20%)'' ?s) ! 1) ''Average_Daily_Demand'' 0 = Some (Fin 60)"
    unfolding run by (simp add: num_at_def with_metrics_def map_of_setitem)
  show "num_at (snd (apply_scenario 0 ''High Demand (+20%)'' ?s) ! 1) ''ROP'' 0 = Some (Fin 700)"
    unfolding run by (simp add: num_at_def with_metrics_def map_of_setitem rop_col_def)
  show "num_at (snd (apply_scenario 0 ''High Demand (+20%)'' ?s) ! 0) ''Average_Daily_Demand'' 0 = Some (Fin 50)"
    unfolding run by (simp add: num_at_def sku_frame_def)
qed

text \<open>
  C9, as amended. On the one record with demand 50, lead time 10, safety stock 100, order
  cost 200 and holding cost 2 the engine yields ROP 600, Annual_Demand 18250, EOQ
  \<open>sqrt 3650000\<close>, which lies between 1910.49 and 1910.50, and Total_Cost twice that,
  between 3820.98 and 3821. High Demand (+20%) on that record hands back a copy with
  demand 60 and ROP 700, and the demand in the caller's table is still 50.
\<close>

theorem worked_example:
  "num_at (snd (calculate_metrics 0 [sku_frame 50 10 100 200 2]) ! 0) ''ROP'' 0 = Some (Fin 600) \<and>
   num_at (snd (calculate_metrics 0 [sku_frame 50 10 100 200 2]) ! 0) ''Annual_Demand'' 0 = Some (Fin 18250) \<and>
   num_at (snd (calculate_metrics 0 [sku_frame 50 10 100 200 2]) ! 0) ''EOQ'' 0 = Some (Fin (sqrt 3650000)) \<and>
   1910.49 < sqrt 3650000 \<and> sqrt 3650000 < 1910.50 \<and>
   num_at (snd (calculate_metrics 0 [sku_frame 50 10 100 200 2]) ! 0) ''Total_Cost'' 0 =
     Some (Fin (2 * sqrt 3650000)) \<and>
   3820.98 < 2 * sqrt 3650000 \<and> 2 * sqrt 3650000 < 3821 \<and>
   fst (apply_scenario 0 ''High Demand (+20%)'' [sku_frame 50 10 100 200 2]) = Inr 1 \<and>
   num_at (snd (apply_scenario 0 ''High Demand (+20%)'' [sku_frame 50 10 100 200 2]) ! 1)
     ''Average_Daily_Demand'' 0 = Some (Fin 60) \<and>
   num_at (snd (apply_scenario 0 ''High Demand (+20%)'' [sku_frame 50 10 100 200 2]) ! 1)
     ''ROP'' 0 = Some (Fin 700) \<and>
   num_at (snd (apply_scenario 0 ''High Demand (+20%)'' [sku_frame 50 10 100 200 2]) ! 0)
     ''Average_Daily_Demand'' 0 = Some (Fin 50)"
proof -
  have b: "3820.98 < 2 * sqrt 3650000" "2 * sqrt 3650000 < 3821"
    using sqrt_3650000 by simp_all
  show ?thesis
    by (simp only: sku_row example_values high_demand_example sqrt_3650000 b simp_thms)
qed

text \<open>
  C9, counterexample. The decimals of the specification are off: the EOQ computed exceeds
  1910.24 by more than 0.25 and the Total_Cost computed exceeds 3820.48 by more than 0.5.
\<close>

theorem worked_example_decimals:
  "num_at (snd (calculate_metrics 0 [sku_frame 50 10 100 200 2]) ! 0) ''EOQ'' 0 = Some (Fin (sqrt 3650000)) \<and>
   1910.24 + 0.25 < sqrt 3650000 \<and>
   num_at (snd (calculate_metrics 0 [sku_frame 50 10 100 200 2]) ! 0) ''Total_Cost'' 0 =
     Some (Fin (2 * sqrt 3650000)) \<and>
   3820.48 + 0.5 < 2 * sqrt 3650000"
proof -
  have "1910.24 + 0.25 < sqrt 3650000" "3820.48 + 0.5 < 2 * sqrt 3650000"
    using sqrt_3650000 by simp_all
  then show ?thesis
    by (simp only: sku_row example_values simp_thms)
qed

lemma balance_algebra:
  fixes e :: real
  assumes "0 < e" "e * e * c = 2 * A * b"
  shows "e / 2 * c = A / e * b"
proof -
  have "A / e * b = (2 * A * b) / (2 * e)" by simp
  also have "\<dots> = (e * e * c) / (2 * e)" by (simp only: assms(2))
  also have "\<dots> = e / 2 * c" using assms(1) by simp
  finally show ?thesis by simp
qed

lemma balanced_row:
  assumes "0 < c" "0 < a * 365 * b"
  shows "\<exists>e. spec_eoq (Fin a) (Fin b) (Fin c) = Fin e \<and> 0 < e \<and>
           e / 2 * c = a * 365 / e * b \<and>
           spec_total_cost (Fin a) (Fin b) (Fin c) = Fin (e * c)"
proof -
  define x where "x = 2 * (a * 365) * b / c"
  define e where "e = sqrt x"
  have pos: "0 < x" using assms by (simp add: x_def)
  then have e: "0 < e" by (simp add: e_def)
  have sq: "e * e = x"
    unfolding e_def using pos by (metis abs_of_pos real_sqrt_mult_self)
  have rad: "fdiv (fmul (fmul (Fin 2) (spec_annual_demand (Fin a))) (Fin b)) (Fin c) = Fin x"
    using assms(1) by (simp add: spec_annual_demand_def x_def)
  have eq: "spec_eoq (Fin a) (Fin b) (Fin c) = Fin e"
    unfolding spec_eoq_def rad using pos by (simp add: e_def)
  have "x * c = 2 * (a * 365) * b"
    using assms(1) by (simp add: x_def)
  then have "e * e * c = 2 * (a * 365) * b"
    by (simp only: sq)
  with e have bal: "e / 2 * c = a * 365 / e * b"
    by (rule balance_algebra)
  then have sum: "e / 2 * c + a * 365 / e * b = e * c" by simp
  have "spec_total_cost (Fin a) (Fin b) (Fin c) =
      fadd (fmul (fdiv (Fin e) (Fin 2)) (Fin c)) (fmul (fdiv (Fin (a * 365)) (Fin e)) (Fin b))"
    by (simp only: spec_total_cost_def eq spec_annual_demand_def fmul.simps)
  also have "\<dots> = Fin (e / 2 * c + a * 365 / e * b)"
    using e by simp
  finally have tc: "spec_total_cost (Fin a) (Fin b) (Fin c) = Fin (e * c)"
    by (simp only: sum)
  show ?thesis using eq e bal tc by blast
qed

text \<open>
  C10, as amended. In a row with finite cells, holding cost \<open>c > 0\<close> and a positive
  radicand (annual demand times order cost above 0), the engine's EOQ \<open>e\<close> is positive,
  the holding term \<open>e/2 * c\<close> equals the ordering term \<open>annual_demand/e * order_cost\<close>,
  each is half of Total_Cost, and Total_Cost is \<open>e * c\<close>.
\<close>

theorem total_cost_is_eoq_times_holding:
  assumes "r < length s"
    and "map_of (s ! r) ''Average_Daily_Demand'' = Some (NumCol d)"
    and "map_of (s ! r) ''Lead_Time_Days'' = Some (NumCol l)"
    and "map_of (s ! r) ''Safety_Stock'' = Some (NumCol ss)"
    and "map_of (s ! r) ''Order_Cost'' = Some (NumCol oc)"
    and "map_of (s ! r) ''Holding_Cost'' = Some (NumCol hc)"
    and "length d = n" "length l = n" "length ss = n" "length oc = n" "length hc = n"
    and "i < n" "d ! i = Fin a" "oc ! i = Fin b" "hc ! i = Fin c"
    and "0 < c" "0 < a * 365 * b"
  shows "\<exists>s' e. calculate_metrics r s = (Inr r, s') \<and>
           num_at (s' ! r) ''Annual_Demand'' i = Some (Fin (a * 365)) \<and>
           num_at (s' ! r) ''EOQ'' i = Some (Fin e) \<and> 0 < e \<and>
           num_at (s' ! r) ''Total_Cost'' i = Some (Fin (e * c)) \<and>
           e / 2 * c = a * 365 / e * b \<and>
           e / 2 * c = e * c / 2"
proof -
  let ?f = "with_metrics (s ! r) d l ss oc hc"
  have run: "calculate_metrics r s = (Inr r, s[r := ?f])"
    using assms(1-6) by (rule calculate_metrics_numeric)
  have at: "s[r := ?f] ! r = ?f"
    using assms(1) by simp
  have ad: "num_at ?f ''Annual_Demand'' i = Some (Fin (a * 365))"
    using with_metrics_row(2) [OF assms(12) assms(7-11)] assms(13)
    by (simp add: spec_annual_demand_def)
  have eo: "num_at ?f ''EOQ'' i = Some (spec_eoq (Fin a) (Fin b) (Fin c))"
    using with_metrics_row(3) [OF assms(12) assms(7-11)] assms(13-15) by simp
  have tc: "num_at ?f ''Total_Cost'' i = Some (spec_total_cost (Fin a) (Fin b) (Fin c))"
    using with_metrics_row(4) [OF assms(12) assms(7-11)] assms(13-15) by simp
  from balanced_row [OF assms(16,17)]
  obtain e where "spec_eoq (Fin a) (Fin b) (Fin c) = Fin e" "0 < e"
    "e / 2 * c = a * 365 / e * b" "spec_total_cost (Fin a) (Fin b) (Fin c) = Fin (e * c)"
    by blast
  then show ?thesis
    using run at ad eo tc by (intro exI [of _ "s[r := ?f]"] exI [of _ e]) simp
qed

theorem total_cost_is_eoq_times_holding_witness:
  "\<exists>e. num_at (snd (calculate_metrics 0 [initial_data]) ! 0) ''EOQ'' 1 = Some (Fin e) \<and> 0 < e \<and>
        num_at (snd (calculate_metrics 0 [initial_data]) ! 0) ''Total_Cost'' 1 = Some (Fin (e * 1.5)) \<and>
        e / 2 * 1.5 = 30 * 365 / e * 150"
proof -
  have "\<exists>s' e. calculate_metrics 0 [initial_data] = (Inr 0, s') \<and>
           num_at (s' ! 0) ''Annual_Demand'' 1 = Some (Fin (30 * 365)) \<and>
           num_at (s' ! 0) ''EOQ'' 1 = Some (Fin e) \<and> 0 < e \<and>
           num_at (s' ! 0) ''Total_Cost'' 1 = Some (Fin (e * 1.5)) \<and>
           e / 2 * 1.5 = 30 * 365 / e * 150 \<and>
           e / 2 * 1.5 = e * 1.5 / 2"
    by (rule total_cost_is_eoq_times_holding [where d = "[Fin 50, Fin 30]" and l = "[Fin 10, Fin 5]"
          and ss = "[Fin 100, Fin 50]" and oc = "[Fin 200, Fin 150]" and hc = "[Fin 2, Fin 1.5]"
          and n = 2])
       (simp_all add: initial_data_def)
  then obtain s' e where "calculate_metrics 0 [initial_data] = (Inr 0, s')"
    "num_at (s' ! 0) ''EOQ'' 1 = Some (Fin e)" "0 < e"
    "num_at (s' ! 0) ''Total_Cost'' 1 = Some (Fin (e * 1.5))"
    "e / 2 * 1.5 = 30 * 365 / e * 150"
    by blast
  then show ?thesis by (intro exI [of _ e]) simp
qed

text \<open>
  C10, counterexample. With demand 0 the radicand is 0, which the claim admits: EOQ is 0
  and EOQ times holding cost is 0, but Total_Cost is NaN (0/0 in the ordering term).
\<close>

theorem zero_demand_total_cost:
  "num_at (snd (calculate_metrics 0 [sku_frame 0 10 100 200 2]) ! 0) ''EOQ'' 0 = Some (Fin 0) \<and>
   num_at (snd (calculate_metrics 0 [sku_frame 0 10 100 200 2]) ! 0) ''Total_Cost'' 0 = Some NaN \<and>
   fmul (Fin 0) (Fin 2) = Fin 0"
proof -
  have e: "spec_eoq (Fin 0) (Fin 200) (Fin 2) = Fin 0"
    by (simp add: spec_eoq_def spec_annual_demand_def)
  have t: "spec_total_cost (Fin 0) (Fin 200) (Fin 2) = NaN"
    unfolding spec_total_cost_def e by (simp add: spec_annual_demand_def)
  show ?thesis
    unfolding sku_row e t by simp
qed

end
